theory Spec2Isabelle
  imports Complex_Main
begin

section \<open>The PLAsTiCC augmentor of avocado (\<^verbatim>\<open>src/avocado/plasticc.py\<close>)\<close>

text \<open>
  A shallow embedding of the methods of \<^verbatim>\<open>PlasticcAugmentor\<close>. Conventions:
  \<^item> A Python float is a \<^typ>\<open>real\<close>: rounding, overflow and underflow of IEEE doubles
    are idealised away. Where numpy produces a non-finite value from finite inputs
    (\<^verbatim>\<open>np.log\<close> of a non-positive number, a division by zero) the value is a
    \<open>float64\<close>, which adds the infinities and NaN.
  \<^item> Every call of \<^verbatim>\<open>np.random\<close> takes the outcome of the generator as an explicit
    argument: a standard normal deviate \<open>g\<close> (any real), a uniform deviate \<open>u\<close> (in
    \<open>[0, 1)\<close> for the real generator), an index \<open>k\<close> (below the population size for the
    real generator). "For every random draw" is a universal quantifier over them.
  \<^item> An exception is a value of \<open>error\<close>; a result is \<open>error + 'a\<close>. A loop that may run
    forever returns an \<open>option\<close>, \<open>None\<close> meaning that it never returns.
  \<^item> A \<^verbatim>\<open>pandas.DataFrame\<close> is an object on a heap (\<open>store\<close>), named by its address, since
    the methods differ in whether they copy the table they are given.
  \<^item> The leading underscore of the method names is dropped.
\<close>

subsection \<open>Python values, exceptions, dictionaries\<close>

datatype error =
    KeyError string
  | IndexError
  | TypeError
  | ValueError
  | OverflowError string
  | UnboundLocalError string
  | AvocadoException string

text \<open>
  \<open>AvocadoException\<close> is the repository's own exception class, imported at line 7 of the
  module. No statement of the module raises it (nor any other exception): every error
  below comes from a dictionary or array lookup or from inside numpy.
\<close>

datatype pyval = PyFloat real | PyInt int | PyBool bool | PyStr string

type_synonym metadata = "string \<rightharpoonup> pyval"

definition getitem :: "metadata \<Rightarrow> string \<Rightarrow> error + pyval" where
  "getitem md k = (case md k of None \<Rightarrow> Inl (KeyError k) | Some v \<Rightarrow> Inr v)"

text \<open>Truth value of an object in an \<^verbatim>\<open>if\<close>.\<close>

fun truthy :: "pyval \<Rightarrow> bool" where
  "truthy (PyFloat x) = (x \<noteq> 0)"
| "truthy (PyInt i) = (i \<noteq> 0)"
| "truthy (PyBool b) = b"
| "truthy (PyStr s) = (s \<noteq> [])"

text \<open>The operand of a float multiplication; a string raises \<^verbatim>\<open>TypeError\<close>.\<close>

fun as_float :: "pyval \<Rightarrow> error + real" where
  "as_float (PyFloat x) = Inr x"
| "as_float (PyInt i) = Inr (of_int i)"
| "as_float (PyBool b) = Inr (if b then 1 else 0)"
| "as_float (PyStr s) = Inl TypeError"

text \<open>\<^verbatim>\<open>int(x)\<close> of a float truncates towards zero.\<close>

definition py_int :: "real \<Rightarrow> int" where
  "py_int x = (if 0 \<le> x then \<lfloor>x\<rfloor> else \<lceil>x\<rceil>)"

subsection \<open>numpy\<close>

datatype float64 = Finite real | PosInf | NegInf | NaN

text \<open>
  \<^verbatim>\<open>np.log\<close> raises nothing: at zero it returns \<open>-inf\<close> and below zero NaN, each with a
  \<^verbatim>\<open>RuntimeWarning\<close> only.
\<close>

definition np_log :: "real \<Rightarrow> float64" where
  "np_log x = (if 0 < x then Finite (ln x) else if x = 0 then NegInf else NaN)"

text \<open>
  \<^verbatim>\<open>np.random.uniform(low, high)\<close> computes \<^verbatim>\<open>high - low\<close> and raises
  \<^verbatim>\<open>OverflowError('Range exceeds valid bounds')\<close> when that is not finite, which is the
  case as soon as one bound is infinite or NaN; otherwise it returns
  \<^verbatim>\<open>low + (high - low) * u\<close> for a uniform deviate \<open>u\<close> of \<open>[0, 1)\<close>.
\<close>

fun np_random_uniform :: "float64 \<Rightarrow> float64 \<Rightarrow> real \<Rightarrow> error + real" where
  "np_random_uniform (Finite low) (Finite high) u = Inr (low + (high - low) * u)"
| "np_random_uniform low high u = Inl (OverflowError ''Range exceeds valid bounds'')"

text \<open>\<^verbatim>\<open>np.random.normal(loc, scale)\<close> is \<^verbatim>\<open>loc + scale * g\<close>, \<open>g\<close> a standard normal deviate.\<close>

definition np_random_normal :: "real \<Rightarrow> real \<Rightarrow> real \<Rightarrow> real" where
  "np_random_normal loc scale g = loc + scale * g"

text \<open>\<^verbatim>\<open>np.random.lognormal(mean, sigma)\<close> is the exponential of a normal draw.\<close>

definition np_random_lognormal :: "real \<Rightarrow> real \<Rightarrow> real \<Rightarrow> real" where
  "np_random_lognormal mean sigma g = exp (np_random_normal mean sigma g)"

text \<open>
  \<^verbatim>\<open>np.random.choice(a)\<close> for an integer \<open>a\<close>: an index \<open>k\<close> of \<open>range(a)\<close>; an empty
  population raises \<^verbatim>\<open>ValueError\<close>.
\<close>

definition np_random_choice :: "nat \<Rightarrow> nat \<Rightarrow> error + nat" where
  "np_random_choice a k = (if a = 0 then Inl ValueError else Inr k)"

text \<open>\<^verbatim>\<open>np.random.choice([-1, 1])\<close>: the second element when the draw is \<open>True\<close>.\<close>

definition np_random_choice_sign :: "bool \<Rightarrow> real" where
  "np_random_choice_sign b = (if b then 1 else - 1)"

text \<open>
  \<^verbatim>\<open>np.random.choice(n, p=p)\<close>: numpy builds the cumulative distribution
  \<^verbatim>\<open>cdf = p.cumsum(); cdf /= cdf[-1]\<close> and returns
  \<^verbatim>\<open>cdf.searchsorted(u, side='right')\<close>, the number of entries of \<open>cdf\<close> that are
  at most \<open>u\<close>.
\<close>

fun cumsum :: "real \<Rightarrow> real list \<Rightarrow> real list" where
  "cumsum acc [] = []"
| "cumsum acc (x # xs) = (acc + x) # cumsum (acc + x) xs"

definition np_random_choice_p :: "real list \<Rightarrow> real \<Rightarrow> nat" where
  "np_random_choice_p p u =
     (let cdf = cumsum 0 p; cdf = map (\<lambda>c. c / last cdf) cdf
      in length (filter (\<lambda>c. c \<le> u) cdf))"

text \<open>\<^verbatim>\<open>np.clip(a, a_min, a_max)\<close>, \<^verbatim>\<open>None\<close> for a missing bound.\<close>

definition np_clip :: "real \<Rightarrow> real option \<Rightarrow> real option \<Rightarrow> real" where
  "np_clip a a_min a_max =
     (let a = (case a_min of None \<Rightarrow> a | Some lo \<Rightarrow> max a lo)
      in case a_max of None \<Rightarrow> a | Some hi \<Rightarrow> min a hi)"

text \<open>Division of doubles: a zero divisor gives an infinity, or NaN for \<open>0 / 0\<close>.\<close>

definition np_divide :: "real \<Rightarrow> real \<Rightarrow> float64" where
  "np_divide a b =
     (if b \<noteq> 0 then Finite (a / b)
      else if a = 0 then NaN else if 0 < a then PosInf else NegInf)"

subsection \<open>The photo-z simulator (lines 69-114)\<close>

text \<open>
  A row of the photo-z reference: spec-z, photo-z, photo-z error. Indexing the array
  beyond its last row raises \<^verbatim>\<open>IndexError\<close>; an index that the generator draws is
  always below the number of rows.
\<close>

type_synonym photoz_row = "real \<times> real \<times> real"

definition getitem_row :: "photoz_row list \<Rightarrow> nat \<Rightarrow> error + photoz_row" where
  "getitem_row tbl i = (if i < length tbl then Inr (tbl ! i) else Inl IndexError)"

text \<open>
  The \<^verbatim>\<open>while True\<close> loop of lines 93-112. Iteration \<open>i\<close> consumes \<open>choices i\<close>: the
  outcome of \<^verbatim>\<open>np.random.choice(len(photoz_reference))\<close> and of
  \<^verbatim>\<open>np.random.choice([-1, 1])\<close>. The normal deviate \<open>g\<close> of line 110 is drawn once, in
  the iteration that reaches \<^verbatim>\<open>break\<close>.
\<close>

partial_function (option) photoz_loop ::
  "photoz_row list \<Rightarrow> real \<Rightarrow> (nat \<Rightarrow> nat \<times> bool) \<Rightarrow> real \<Rightarrow> nat
     \<Rightarrow> (error + real \<times> real) option"
where
  "photoz_loop photoz_reference redshift choices g i =
     (case np_random_choice (length photoz_reference) (fst (choices i)) of
        Inl e \<Rightarrow> Some (Inl e)
      | Inr ref_idx \<Rightarrow>
         (case getitem_row photoz_reference ref_idx of
            Inl e \<Rightarrow> Some (Inl e)
          | Inr (ref_specz, ref_photoz, ref_photoz_err) \<Rightarrow>
             (let new_diff = (ref_photoz - ref_specz) * np_random_choice_sign (snd (choices i));
                  new_photoz = redshift + new_diff
              in if new_photoz < 0
                 then photoz_loop photoz_reference redshift choices g (Suc i)
                 else (let new_photoz_err = ref_photoz_err * np_random_normal 1 0.05 g
                       in Some (Inr (new_photoz, new_photoz_err))))))"

definition simulate_photoz ::
  "photoz_row list \<Rightarrow> real \<Rightarrow> (nat \<Rightarrow> nat \<times> bool) \<Rightarrow> real \<Rightarrow> (error + real \<times> real) option"
where
  "simulate_photoz photoz_reference redshift choices g =
     photoz_loop photoz_reference redshift choices g 0"


subsection \<open>The metadata augmentor (lines 116-216)\<close>

text \<open>
  The outcomes of the generator for one call of \<^verbatim>\<open>_augment_metadata\<close>, by the line
  that draws them.
\<close>

record draws =
  brightness_normal :: real  \<comment> \<open>line 139\<close>
  redshift_uniform :: real  \<comment> \<open>line 164\<close>
  photoz_choices :: "nat \<Rightarrow> nat \<times> bool"  \<comment> \<open>lines 94 and 101\<close>
  photoz_err_normal :: real  \<comment> \<open>line 110\<close>
  ddf_rand :: real  \<comment> \<open>line 205\<close>
  mwebv_normal :: real  \<comment> \<open>line 214\<close>

text \<open>
  \<open>distmod\<close> is \<^verbatim>\<open>self.cosmology.distmod(z).value\<close>, of the base class and astropy.
  The method updates \<open>augmented_metadata\<close> in place; the model returns the new dictionary.
  \<^verbatim>\<open>np.exp\<close> and \<^verbatim>\<open>np.log\<close> of a positive number are the exact \<open>exp\<close> and \<open>ln\<close> here, so
  that \<open>exp (ln b) = b\<close>; in doubles the round trip can be off by a unit in the last place.
  The statements about this method below do not rest on that identity, except the one
  that says so.
\<close>

definition augment_redshift ::
  "(real \<Rightarrow> real) \<Rightarrow> photoz_row list \<Rightarrow> metadata \<Rightarrow> metadata \<Rightarrow> draws
     \<Rightarrow> (error + metadata) option"
where
  "augment_redshift distmod photoz_reference reference_metadata augmented_metadata d =
     (case getitem reference_metadata ''galactic'' of
        Inl e \<Rightarrow> Some (Inl e)
      | Inr galactic \<Rightarrow>
         if truthy galactic then
           Some (Inr (augmented_metadata
             (''redshift'' \<mapsto> PyInt 0,
              ''host_specz'' \<mapsto> PyInt 0,
              ''host_photoz'' \<mapsto> PyInt 0,
              ''host_photoz_error'' \<mapsto> PyInt 0,
              ''augment_brightness'' \<mapsto>
                 PyFloat (np_random_normal 0.5 0.5 (brightness_normal d)))))
         else
          (case getitem reference_metadata ''redshift'' of
             Inl e \<Rightarrow> Some (Inl e)
           | Inr v \<Rightarrow>
              (case as_float v of
                 Inl e \<Rightarrow> Some (Inl e)
               | Inr template_redshift \<Rightarrow>
                  (let min_redshift = 0.95 * template_redshift;
                       max_redshift = 5 * template_redshift;
                       max_redshift = min max_redshift (1.5 * (1 + template_redshift) - 1)
                   in case np_random_uniform (np_log min_redshift) (np_log max_redshift)
                             (redshift_uniform d) of
                        Inl e \<Rightarrow> Some (Inl e)
                      | Inr x \<Rightarrow>
                         (let aug_redshift = exp x
                          in case simulate_photoz photoz_reference aug_redshift
                                    (photoz_choices d) (photoz_err_normal d) of
                               None \<Rightarrow> None
                             | Some (Inl e) \<Rightarrow> Some (Inl e)
                             | Some (Inr (aug_photoz, aug_photoz_error)) \<Rightarrow>
                                (let aug_distmod = distmod aug_photoz
                                 in Some (Inr (augmented_metadata
                                      (''redshift'' \<mapsto> PyFloat aug_redshift,
                                       ''host_specz'' \<mapsto> PyFloat aug_redshift,
                                       ''host_photoz'' \<mapsto> PyFloat aug_photoz,
                                       ''host_photoz_error'' \<mapsto> PyFloat aug_photoz_error,
                                       ''distmod'' \<mapsto> PyFloat aug_distmod)))))))))"

definition augment_metadata ::
  "(real \<Rightarrow> real) \<Rightarrow> photoz_row list \<Rightarrow> metadata \<Rightarrow> draws \<Rightarrow> (error + metadata) option"
where
  "augment_metadata distmod photoz_reference reference_metadata d =
     (let augmented_metadata = reference_metadata
      in case augment_redshift distmod photoz_reference reference_metadata
                augmented_metadata d of
           None \<Rightarrow> None
         | Some (Inl e) \<Rightarrow> Some (Inl e)
         | Some (Inr augmented_metadata) \<Rightarrow>
            (case getitem reference_metadata ''ddf'' of
               Inl e \<Rightarrow> Some (Inl e)
             | Inr ddf \<Rightarrow>
                (let augmented_metadata =
                       (if truthy ddf
                        then augmented_metadata(''ddf'' \<mapsto> PyBool (ddf_rand d > 0.8))
                        else augmented_metadata(''ddf'' \<mapsto> PyBool False))
                 in case getitem augmented_metadata ''mwebv'' of
                      Inl e \<Rightarrow> Some (Inl e)
                    | Inr v \<Rightarrow>
                       (case as_float v of
                          Inl e \<Rightarrow> Some (Inl e)
                        | Inr mwebv \<Rightarrow>
                           Some (Inr (augmented_metadata
                             (''mwebv'' \<mapsto>
                                PyFloat (mwebv * np_random_normal 1 0.1 (mwebv_normal d)))))))))"

subsection \<open>The cadence selector (lines 218-254)\<close>

text \<open>
  \<open>u\<close> is the uniform deviate behind \<^verbatim>\<open>np.random.choice(3, p=...)\<close>, \<open>g\<close> the normal
  deviate of the one \<^verbatim>\<open>np.random.normal\<close> the call makes. The chain of \<^verbatim>\<open>elif\<close> has no
  \<^verbatim>\<open>else\<close>: with a choice other than 0, 1, 2 the names \<^verbatim>\<open>mu\<close> and \<^verbatim>\<open>sigma\<close> are unbound.
\<close>

definition choose_target_observation_count :: "metadata \<Rightarrow> real \<Rightarrow> real \<Rightarrow> error + int" where
  "choose_target_observation_count augmented_metadata u g =
     (case getitem augmented_metadata ''ddf'' of
        Inl e \<Rightarrow> Inl e
      | Inr ddf \<Rightarrow>
         if truthy ddf then Inr (py_int (np_random_normal 330 30 g))
         else
          (let gauss_choice = np_random_choice_p [0.05, 0.4, 0.55] u
           in case (if gauss_choice = 0 then Some (95, 20)
                    else if gauss_choice = 1 then Some (115, 8)
                    else if gauss_choice = 2 then Some (138, 8)
                    else None) of
                None \<Rightarrow> Inl (UnboundLocalError ''mu'')
              | Some (mu, sigma) \<Rightarrow>
                 Inr (py_int (np_clip (np_random_normal mu sigma g) (Some 50) None))))"

subsection \<open>Observation tables on a heap\<close>

record observation =
  band :: string
  flux :: real
  flux_error :: real
  detected :: "bool option"  \<comment> \<open>\<open>None\<close>: the table has no column \<^verbatim>\<open>detected\<close> yet\<close>

type_synonym obs_table = "observation list"

text \<open>
  The heap of \<^verbatim>\<open>DataFrame\<close> objects: the object at address \<open>r\<close> is \<open>s ! r\<close>, and a new
  object takes the next address, \<open>length s\<close>. A reference the caller holds is an address
  below \<open>length s\<close>.
\<close>

type_synonym store = "obs_table list"

definition df_copy :: "store \<Rightarrow> nat \<Rightarrow> nat \<times> store" where
  "df_copy s r = (length s, s @ [s ! r])"

subsection \<open>The noise injector (lines 256-319)\<close>

definition ddf_band_noises :: "(string \<times> real \<times> real) list" where
  "ddf_band_noises =
     [(''lsstu'', (0.68, 0.26)), (''lsstg'', (0.25, 0.50)), (''lsstr'', (0.16, 0.36)),
      (''lssti'', (0.53, 0.27)), (''lsstz'', (0.88, 0.22)), (''lssty'', (1.76, 0.23))]"

definition wfd_band_noises :: "(string \<times> real \<times> real) list" where
  "wfd_band_noises =
     [(''lsstu'', (2.34, 0.43)), (''lsstg'', (0.94, 0.41)), (''lsstr'', (1.30, 0.41)),
      (''lssti'', (1.82, 0.42)), (''lsstz'', (2.56, 0.36)), (''lssty'', (3.33, 0.37))]"

text \<open>
  \<^verbatim>\<open>[band_noises[i] for i in observations['band']]\<close>: the first band that is not a key
  raises \<^verbatim>\<open>KeyError\<close>.
\<close>

fun lognormal_parameters ::
  "(string \<times> real \<times> real) list \<Rightarrow> string list \<Rightarrow> error + (real \<times> real) list" where
  "lognormal_parameters band_noises [] = Inr []"
| "lognormal_parameters band_noises (b # bs) =
     (case map_of band_noises b of
        None \<Rightarrow> Inl (KeyError b)
      | Some p \<Rightarrow>
         (case lognormal_parameters band_noises bs of
            Inl e \<Rightarrow> Inl e
          | Inr ps \<Rightarrow> Inr (p # ps)))"

text \<open>
  \<open>g1 i\<close> is the normal deviate behind the lognormal draw of row \<open>i\<close> (line 310), \<open>g2 i\<close> the
  one behind its additive noise (line 313). The result is the returned reference (or the
  exception) and the heap after the call.
\<close>

definition simulate_light_curve_uncertainties ::
  "store \<Rightarrow> nat \<Rightarrow> metadata \<Rightarrow> (nat \<Rightarrow> real) \<Rightarrow> (nat \<Rightarrow> real) \<Rightarrow> (error + nat) \<times> store"
where
  "simulate_light_curve_uncertainties s r augmented_metadata g1 g2 =
     (case df_copy s r of (observations, s) \<Rightarrow>
        if length (s ! observations) = 0 then (Inr observations, s)
        else
         (case getitem augmented_metadata ''ddf'' of
            Inl e \<Rightarrow> (Inl e, s)
          | Inr ddf \<Rightarrow>
             (let band_noises = (if truthy ddf then ddf_band_noises else wfd_band_noises)
              in case lognormal_parameters band_noises (map band (s ! observations)) of
                   Inl e \<Rightarrow> (Inl e, s)
                 | Inr params \<Rightarrow>
                    (let n = length params;
                         add_stds = map (\<lambda>i. np_random_lognormal (fst (params ! i))
                                                 (snd (params ! i)) (g1 i)) [0..<n];
                         noise_add = map (\<lambda>i. np_random_normal 0 (add_stds ! i) (g2 i)) [0..<n];
                         tbl = s ! observations;
                         tbl = map (\<lambda>i. (tbl ! i)\<lparr>flux := flux (tbl ! i) + noise_add ! i\<rparr>)
                                 [0..<length tbl];
                         tbl = map (\<lambda>i. (tbl ! i)\<lparr>flux_error :=
                                       sqrt ((flux_error (tbl ! i))\<^sup>2 + (add_stds ! i)\<^sup>2)\<rparr>)
                                 [0..<length tbl]
                     in (Inr observations, s[observations := tbl])))))"

subsection \<open>The detection simulator (lines 321-351)\<close>

text \<open>
  \<^verbatim>\<open>scipy.special.erf\<close>, the error function, by its Maclaurin series
  \<open>2 / sqrt pi * (x - x\<^sup>3 / 3 + x\<^sup>5 / 10 - x\<^sup>7 / 42 + ...)\<close>.
\<close>

definition erf :: "real \<Rightarrow> real" where
  "erf x = 2 / sqrt pi * (\<Sum>n. (- 1) ^ n * x ^ (2 * n + 1) / (fact n * real (2 * n + 1)))"

text \<open>
  Line 346 for one row. At the infinities \<^verbatim>\<open>erf\<close> is \<open>1\<close> and \<open>-1\<close>, at NaN it is NaN.
\<close>

definition prob_detected :: "float64 \<Rightarrow> float64" where
  "prob_detected s2n =
     (case s2n of
        Finite x \<Rightarrow> Finite ((erf ((x - 5.5) / 2) + 1) / 2)
      | PosInf \<Rightarrow> Finite ((1 + 1) / 2)
      | NegInf \<Rightarrow> Finite ((- 1 + 1) / 2)
      | NaN \<Rightarrow> NaN)"

text \<open>\<^verbatim>\<open>u < p\<close> for a finite \<open>u\<close>: a comparison with NaN is false.\<close>

definition np_less :: "real \<Rightarrow> float64 \<Rightarrow> bool" where
  "np_less u p =
     (case p of Finite x \<Rightarrow> u < x | PosInf \<Rightarrow> True | NegInf \<Rightarrow> False | NaN \<Rightarrow> False)"

text \<open>\<^verbatim>\<open>np.sum\<close> of a boolean column counts its \<^verbatim>\<open>True\<close> entries.\<close>

definition np_sum_bool :: "bool option list \<Rightarrow> nat" where
  "np_sum_bool col = length (filter (\<lambda>b. b = Some True) col)"

text \<open>
  \<open>rand i\<close> is entry \<open>i\<close> of \<^verbatim>\<open>np.random.rand(len(s2n))\<close>. The method does not read
  \<open>augmented_metadata\<close>. The result is the returned pair and the heap after the call.
\<close>

definition simulate_detection ::
  "store \<Rightarrow> nat \<Rightarrow> metadata \<Rightarrow> (nat \<Rightarrow> real) \<Rightarrow> (nat \<times> bool) \<times> store"
where
  "simulate_detection s observations augmented_metadata rand =
     (let tbl = s ! observations;
          s2n = map (\<lambda>row. np_divide \<bar>flux row\<bar> (flux_error row)) tbl;
          prob = map prob_detected s2n;
          flags = map (\<lambda>i. np_less (rand i) (prob ! i)) [0..<length s2n];
          s = s[observations := map (\<lambda>i. (tbl ! i)\<lparr>detected := Some (flags ! i)\<rparr>)
                                   [0..<length tbl]];
          pass_detection = (np_sum_bool (map detected (s ! observations)) \<ge> 2)
      in ((observations, pass_detection), s))"

subsection \<open>Concrete inputs\<close>

text \<open>
  Generators that repeat one outcome, a cosmology that is flat in the sense of returning
  \<open>0\<close> everywhere (the statements below hold for every \<open>distmod\<close>), and a row with
  infinite signal-to-noise, for the closed instances of the theorems.
\<close>

definition constant_choices :: "nat \<times> bool \<Rightarrow> nat \<Rightarrow> nat \<times> bool" where
  "constant_choices c i = c"

definition constant_deviates :: "real \<Rightarrow> nat \<Rightarrow> real" where
  "constant_deviates x i = x"

definition example_draws :: draws where
  "example_draws =
     \<lparr>brightness_normal = 0, redshift_uniform = 1 / 2,
      photoz_choices = constant_choices (0, True), photoz_err_normal = 0,
      ddf_rand = 1 / 2, mwebv_normal = 0\<rparr>"

definition flat_distmod :: "real \<Rightarrow> real" where
  "flat_distmod z = 0"

definition example_row :: observation where
  "example_row = \<lparr>band = ''lsstr'', flux = 100, flux_error = 0, detected = None\<rparr>"

section \<open>Properties\<close>

subsection \<open>The rejection loop\<close>






lemma photoz_loop_nonneg:
  assumes "photoz_loop ref z c g i = Some y"
  shows "\<forall>photoz photoz_error. y = Inr (photoz, photoz_error) \<longrightarrow> 0 \<le> photoz"
proof (rule photoz_loop.raw_induct
    [where P = "\<lambda>ref z c g i y. \<forall>photoz photoz_error. y = Inr (photoz, photoz_error) \<longrightarrow> 0 \<le> photoz",
      OF _ assms])
  fix loop :: "photoz_row list \<Rightarrow> real \<Rightarrow> (nat \<Rightarrow> nat \<times> bool) \<Rightarrow> real \<Rightarrow> nat
     \<Rightarrow> (error + real \<times> real) option"
  fix ref z c g i y
  assume IH: "\<And>ref z c g i y. loop ref z c g i = Some y \<Longrightarrow>
     \<forall>photoz photoz_error. y = Inr (photoz, photoz_error) \<longrightarrow> 0 \<le> photoz"
  assume body: "(case np_random_choice (length ref) (fst (c i)) of
        Inl e \<Rightarrow> Some (Inl e)
      | Inr ref_idx \<Rightarrow>
         (case getitem_row ref ref_idx of
            Inl e \<Rightarrow> Some (Inl e)
          | Inr (ref_specz, ref_photoz, ref_photoz_err) \<Rightarrow>
             (let new_diff = (ref_photoz - ref_specz) * np_random_choice_sign (snd (c i));
                  new_photoz = z + new_diff
              in if new_photoz < 0
                 then loop ref z c g (Suc i)
                 else (let new_photoz_err = ref_photoz_err * np_random_normal 1 0.05 g
                       in Some (Inr (new_photoz, new_photoz_err)))))) = Some y"
  obtain sz pz pe where row: "ref ! fst (c i) = (sz, pz, pe)"
    by (metis prod_cases3)
  show "\<forall>photoz photoz_error. y = Inr (photoz, photoz_error) \<longrightarrow> 0 \<le> photoz"
  proof (cases "ref \<noteq> [] \<and> fst (c i) < length ref")
    case False
    with body show ?thesis
      by (auto simp: np_random_choice_def getitem_row_def split: if_splits)
  next
    case ok: True
    show ?thesis
    proof (cases "z + (pz - sz) * np_random_choice_sign (snd (c i)) < 0")
      case True
      with ok body have "loop ref z c g (Suc i) = Some y"
        by (simp add: np_random_choice_def getitem_row_def row)
      then show ?thesis by (rule IH)
    next
      case False
      with ok body show ?thesis
        by (auto simp: np_random_choice_def getitem_row_def row)
    qed
  qed
qed

lemma simulate_photoz_first_accept:
  assumes "0 \<le> z"
  shows "simulate_photoz [(1, 3, 1 / 10)] z (constant_choices (0, True)) 0 =
           Some (Inr (z + 2, 1 / 10))"
proof -
  have "\<not> z + 2 < 0" using assms by simp
  then show ?thesis
    unfolding simulate_photoz_def
    by (subst photoz_loop.simps)
       (simp add: np_random_choice_def getitem_row_def constant_choices_def
          np_random_choice_sign_def np_random_normal_def Let_def)
qed








text \<open>
  C4: whenever \<open>simulate_photoz\<close> returns a pair, its photo-z is not negative, for every
  reference table, every true redshift and every sequence of draws.
\<close>

theorem simulate_photoz_nonneg:
  assumes "simulate_photoz ref z c g = Some (Inr (photoz, photoz_error))"
  shows "0 \<le> photoz"
  using photoz_loop_nonneg [of ref z c g 0 "Inr (photoz, photoz_error)"] assms
  by (simp add: simulate_photoz_def)

theorem simulate_photoz_nonneg_witness:
  "simulate_photoz [(1, 3, 1 / 10)] 1 (constant_choices (0, True)) 0 = Some (Inr (3, 1 / 10)) \<and>
   (0 :: real) \<le> 3"
proof -
  have h: "simulate_photoz [(1, 3, 1 / 10)] 1 (constant_choices (0, True)) 0 =
      Some (Inr (3, 1 / 10))"
    using simulate_photoz_first_accept [of 1] by simp
  from simulate_photoz_nonneg [OF h] h show ?thesis by simp
qed

subsection \<open>Metadata\<close>

lemma augment_redshift_degenerate:
  assumes "getitem md ''galactic'' = Inr gv" and "\<not> truthy gv"
    and "getitem md ''redshift'' = Inr v" and "as_float v = Inr z0" and "z0 \<le> 0"
  shows "augment_redshift distmod ref md amd d =
           Some (Inl (OverflowError ''Range exceeds valid bounds''))"
proof -
  have "np_log (0.95 * z0) \<noteq> Finite x" for x
    using \<open>z0 \<le> 0\<close> by (simp add: np_log_def)
  then have "np_random_uniform (np_log (0.95 * z0)) hi u =
      Inl (OverflowError ''Range exceeds valid bounds'')" for hi u
    by (cases "np_log (0.95 * z0)") simp_all
  with assms show ?thesis
    by (simp add: augment_redshift_def Let_def)
qed

text \<open>
  C1, as the code has it. The claim asks for an explicit rejection of a template redshift
  \<open>z0 \<le> 0\<close> of a non-galactic object. The module has no such check. Both bounds are then
  non-positive, \<^verbatim>\<open>np.log\<close> turns them into \<open>-inf\<close> or NaN, and the call ends inside
  \<^verbatim>\<open>np.random.uniform\<close>, with numpy's \<^verbatim>\<open>OverflowError('Range exceeds valid bounds')\<close>,
  before any photo-z is simulated and before the metadata is written.
\<close>

theorem augment_metadata_degenerate_redshift:
  assumes "getitem md ''galactic'' = Inr gv" and "\<not> truthy gv"
    and "getitem md ''redshift'' = Inr v" and "as_float v = Inr z0" and "z0 \<le> 0"
  shows "augment_metadata distmod ref md d =
           Some (Inl (OverflowError ''Range exceeds valid bounds''))"
  using augment_redshift_degenerate [OF assms]
  by (simp add: augment_metadata_def Let_def)

theorem augment_metadata_degenerate_redshift_witness:
  "augment_metadata flat_distmod [(1, 3, 1 / 10)]
     [''galactic'' \<mapsto> PyBool False, ''redshift'' \<mapsto> PyFloat (- 1 / 2),
      ''ddf'' \<mapsto> PyBool False, ''mwebv'' \<mapsto> PyFloat (1 / 10)]
     example_draws =
   Some (Inl (OverflowError ''Range exceeds valid bounds''))"
  using augment_metadata_degenerate_redshift
    [of "[''galactic'' \<mapsto> PyBool False, ''redshift'' \<mapsto> PyFloat (- 1 / 2),
          ''ddf'' \<mapsto> PyBool False, ''mwebv'' \<mapsto> PyFloat (1 / 10)]"
      "PyBool False" "PyFloat (- 1 / 2)" "- 1 / 2" flat_distmod "[(1, 3, 1 / 10)]" example_draws]
  by (simp add: getitem_def)

text \<open>
  C1 as stated fails: at \<open>z0 = 0\<close> the error that comes out is numpy's overflow error,
  which names neither the redshift nor the object, not a rejection by the augmentor.
\<close>

theorem augment_metadata_degenerate_redshift_counterexample:
  "augment_metadata flat_distmod [(1, 3, 1 / 10)]
     [''galactic'' \<mapsto> PyBool False, ''redshift'' \<mapsto> PyFloat 0,
      ''ddf'' \<mapsto> PyBool False, ''mwebv'' \<mapsto> PyFloat (1 / 10)]
     example_draws =
   Some (Inl (OverflowError ''Range exceeds valid bounds''))"
  by (simp add: augment_metadata_def augment_redshift_def getitem_def np_log_def Let_def)

lemma augment_redshift_range:
  assumes "getitem md ''galactic'' = Inr gv" and "\<not> truthy gv"
    and "getitem md ''redshift'' = Inr v" and "as_float v = Inr z0" and "0 < z0"
    and "0 \<le> redshift_uniform d" and "redshift_uniform d < 1"
    and "augment_redshift distmod ref md amd d = Some (Inr amd')"
  shows "\<exists>z. amd' ''redshift'' = Some (PyFloat z) \<and> amd' ''host_specz'' = Some (PyFloat z) \<and>
           0.95 * z0 \<le> z \<and> z \<le> min (5 * z0) (1.5 * (1 + z0) - 1)"
proof -
  define lo where "lo = 0.95 * z0"
  define hi where "hi = min (5 * z0) (1.5 * (1 + z0) - 1)"
  define u where "u = redshift_uniform d"
  define x where "x = ln lo + (ln hi - ln lo) * u"
  have lo: "0 < lo" using \<open>0 < z0\<close> by (simp add: lo_def)
  have hi: "0 < hi" using \<open>0 < z0\<close> unfolding hi_def min_def by (simp add: field_simps)
  have lohi: "lo \<le> hi"
    using \<open>0 < z0\<close> unfolding lo_def hi_def min_def by (simp add: field_simps)
  have u: "0 \<le> u" "u < 1" using assms by (simp_all add: u_def)
  have "ln lo \<le> ln hi" using lo hi lohi by simp
  then have w: "0 \<le> ln hi - ln lo" by simp
  have "0 \<le> (ln hi - ln lo) * u" using w u by simp
  moreover have "(ln hi - ln lo) * u \<le> (ln hi - ln lo) * 1"
    using w u by (intro mult_left_mono) simp_all
  ultimately have "0 \<le> (ln hi - ln lo) * u" and "(ln hi - ln lo) * u \<le> ln hi - ln lo"
    by simp_all
  then have "ln lo \<le> x" and "x \<le> ln hi" by (simp_all add: x_def)
  then have "exp (ln lo) \<le> exp x" and "exp x \<le> exp (ln hi)" by simp_all
  then have bounds: "lo \<le> exp x" "exp x \<le> hi" using lo hi by simp_all
  have unif: "np_random_uniform (np_log lo) (np_log hi) u = Inr x"
    using lo hi by (simp add: np_log_def x_def)
  from assms(8) have "amd' ''redshift'' = Some (PyFloat (exp x)) \<and>
      amd' ''host_specz'' = Some (PyFloat (exp x))"
    using assms(1-4) unif
    by (auto simp: augment_redshift_def Let_def lo_def hi_def u_def
        split: option.splits sum.splits prod.splits)
  with bounds show ?thesis unfolding lo_def hi_def by blast
qed

lemma augment_metadata_Inr:
  assumes "augment_metadata distmod ref md d = Some (Inr md')"
  shows "\<exists>amd'. augment_redshift distmod ref md md d = Some (Inr amd') \<and>
           md' ''redshift'' = amd' ''redshift''"
proof (cases "augment_redshift distmod ref md md d")
  case None
  with assms show ?thesis by (simp add: augment_metadata_def)
next
  case (Some res)
  show ?thesis
  proof (cases res)
    case (Inl e)
    with Some assms show ?thesis by (simp add: augment_metadata_def)
  next
    case (Inr amd')
    with Some assms have "md' ''redshift'' = amd' ''redshift''"
      by (auto simp: augment_metadata_def Let_def split: sum.splits if_splits)
    with Some Inr show ?thesis by simp
  qed
qed

text \<open>
  The redshift range over exact real arithmetic: for a non-galactic reference object with
  template redshift \<open>z0 > 0\<close> and a uniform deviate in \<open>[0, 1)\<close>, the redshift of the
  metadata that \<open>augment_metadata\<close> returns lies in
  \<open>[0.95 * z0, min (5 * z0) (1.5 * (1 + z0) - 1)]\<close>. This is not C3: the code computes
  \<^verbatim>\<open>np.exp\<close> of a draw between the \<^verbatim>\<open>np.log\<close> of the bounds in IEEE doubles, where
  \<^verbatim>\<open>np.exp(np.log(b))\<close> need not be \<open>b\<close> (at \<open>z0 = 0.3\<close> and deviate \<open>0\<close> the doubles
  give \<open>0.2849999999999999\<close>, below \<open>0.285\<close>), by an amount that depends on the
  platform's \<^verbatim>\<open>exp\<close> and \<^verbatim>\<open>log\<close>. The closed bounds of C3 are a property of that
  rounding, which this model of floats as reals does not have.
\<close>

lemma augment_metadata_redshift_range_reals:
  assumes "getitem md ''galactic'' = Inr gv" and "\<not> truthy gv"
    and "getitem md ''redshift'' = Inr v" and "as_float v = Inr z0" and "0 < z0"
    and "0 \<le> redshift_uniform d" and "redshift_uniform d < 1"
    and "augment_metadata distmod ref md d = Some (Inr md')"
  shows "\<exists>z. md' ''redshift'' = Some (PyFloat z) \<and>
           0.95 * z0 \<le> z \<and> z \<le> min (5 * z0) (1.5 * (1 + z0) - 1)"
proof -
  from augment_metadata_Inr [OF assms(8)] obtain amd' where
    r: "augment_redshift distmod ref md md d = Some (Inr amd')"
    and same: "md' ''redshift'' = amd' ''redshift''"
    by blast
  from augment_redshift_range [OF assms(1-7) r] obtain z where
    "amd' ''redshift'' = Some (PyFloat z)"
    and "0.95 * z0 \<le> z" and "z \<le> min (5 * z0) (1.5 * (1 + z0) - 1)"
    by blast
  with same show ?thesis by auto
qed

lemma augment_metadata_example_returns:
  "\<exists>md'. augment_metadata flat_distmod [(1, 3, 1 / 10)]
      [''galactic'' \<mapsto> PyBool False, ''redshift'' \<mapsto> PyFloat 1,
       ''ddf'' \<mapsto> PyBool False, ''mwebv'' \<mapsto> PyFloat (1 / 10)]
      example_draws = Some (Inr md')"
proof -
  have "0 \<le> exp x" for x :: real by simp
  then show ?thesis
    by (simp add: augment_metadata_def augment_redshift_def getitem_def np_log_def Let_def
        example_draws_def simulate_photoz_first_accept)
qed

lemma augment_metadata_redshift_range_reals_example:
  "\<exists>md' z. augment_metadata flat_distmod [(1, 3, 1 / 10)]
      [''galactic'' \<mapsto> PyBool False, ''redshift'' \<mapsto> PyFloat 1,
       ''ddf'' \<mapsto> PyBool False, ''mwebv'' \<mapsto> PyFloat (1 / 10)]
      example_draws = Some (Inr md') \<and>
     md' ''redshift'' = Some (PyFloat z) \<and> 95 / 100 \<le> z \<and> z \<le> 2"
proof -
  let ?md = "[''galactic'' \<mapsto> PyBool False, ''redshift'' \<mapsto> PyFloat 1,
       ''ddf'' \<mapsto> PyBool False, ''mwebv'' \<mapsto> PyFloat (1 / 10)]"
  from augment_metadata_example_returns obtain md' where
    r: "augment_metadata flat_distmod [(1, 3, 1 / 10)] ?md example_draws = Some (Inr md')"
    by blast
  have "\<exists>z. md' ''redshift'' = Some (PyFloat z) \<and>
           0.95 * 1 \<le> z \<and> z \<le> min (5 * 1) (1.5 * (1 + 1) - 1)"
    by (rule augment_metadata_redshift_range_reals
        [of ?md "PyBool False" "PyFloat 1" 1 example_draws flat_distmod "[(1, 3, 1 / 10)]" md',
          OF _ _ _ _ _ _ _ r])
       (simp_all add: getitem_def example_draws_def)
  then obtain z where "md' ''redshift'' = Some (PyFloat z)" "95 / 100 \<le> z" "z \<le> 2"
    by auto
  with r show ?thesis by blast
qed

lemma augment_redshift_galactic:
  assumes "getitem md ''galactic'' = Inr gv" and "truthy gv"
  shows "augment_redshift distmod ref md amd d =
           Some (Inr (amd
             (''redshift'' \<mapsto> PyInt 0,
              ''host_specz'' \<mapsto> PyInt 0,
              ''host_photoz'' \<mapsto> PyInt 0,
              ''host_photoz_error'' \<mapsto> PyInt 0,
              ''augment_brightness'' \<mapsto>
                 PyFloat (np_random_normal 0.5 0.5 (brightness_normal d)))))"
  using assms by (simp add: augment_redshift_def)

text \<open>
  C9: for a galactic reference object (whose metadata has the keys \<^verbatim>\<open>ddf\<close> and
  \<^verbatim>\<open>mwebv\<close> that the rest of the method reads), \<open>augment_metadata\<close> returns metadata in
  which \<^verbatim>\<open>redshift\<close>, \<^verbatim>\<open>host_specz\<close>, \<^verbatim>\<open>host_photoz\<close> and
  \<^verbatim>\<open>host_photoz_error\<close> are \<open>0\<close> and \<^verbatim>\<open>augment_brightness\<close> is the normal draw
  with mean 0.5 and standard deviation 0.5.
\<close>

theorem augment_metadata_galactic:
  assumes "getitem md ''galactic'' = Inr gv" and "truthy gv"
    and "getitem md ''ddf'' = Inr dv"
    and "getitem md ''mwebv'' = Inr w" and "as_float w = Inr mwebv"
  shows "\<exists>md'. augment_metadata distmod ref md d = Some (Inr md') \<and>
           md' ''redshift'' = Some (PyInt 0) \<and>
           md' ''host_specz'' = Some (PyInt 0) \<and>
           md' ''host_photoz'' = Some (PyInt 0) \<and>
           md' ''host_photoz_error'' = Some (PyInt 0) \<and>
           md' ''augment_brightness'' =
             Some (PyFloat (np_random_normal 0.5 0.5 (brightness_normal d)))"
proof -
  define amd where "amd = md
             (''redshift'' \<mapsto> PyInt 0,
              ''host_specz'' \<mapsto> PyInt 0,
              ''host_photoz'' \<mapsto> PyInt 0,
              ''host_photoz_error'' \<mapsto> PyInt 0,
              ''augment_brightness'' \<mapsto>
                 PyFloat (np_random_normal 0.5 0.5 (brightness_normal d)))"
  define amd2 where "amd2 =
     (if truthy dv then amd(''ddf'' \<mapsto> PyBool (ddf_rand d > 0.8))
      else amd(''ddf'' \<mapsto> PyBool False))"
  define md' where "md' = amd2(''mwebv'' \<mapsto>
     PyFloat (mwebv * np_random_normal 1 0.1 (mwebv_normal d)))"
  have r: "augment_redshift distmod ref md md d = Some (Inr amd)"
    unfolding amd_def by (rule augment_redshift_galactic [OF assms(1,2)])
  from assms(4) have "md ''mwebv'' = Some w"
    by (simp add: getitem_def split: option.splits)
  then have "amd2 ''mwebv'' = Some w"
    by (simp add: amd2_def amd_def)
  then have mw: "getitem amd2 ''mwebv'' = Inr w"
    by (simp add: getitem_def)
  have res: "augment_metadata distmod ref md d = Some (Inr md')"
    unfolding augment_metadata_def Let_def r
    by (simp add: assms(3,5) mw md'_def amd2_def [symmetric])
  have "md' ''redshift'' = Some (PyInt 0)"
    and "md' ''host_specz'' = Some (PyInt 0)"
    and "md' ''host_photoz'' = Some (PyInt 0)"
    and "md' ''host_photoz_error'' = Some (PyInt 0)"
    and "md' ''augment_brightness'' =
             Some (PyFloat (np_random_normal 0.5 0.5 (brightness_normal d)))"
    by (simp_all add: md'_def amd2_def amd_def)
  with res show ?thesis by blast
qed

theorem augment_metadata_galactic_witness:
  "\<exists>md'. augment_metadata flat_distmod [(1, 3, 1 / 10)]
      [''galactic'' \<mapsto> PyBool True, ''redshift'' \<mapsto> PyFloat 0,
       ''ddf'' \<mapsto> PyBool False, ''mwebv'' \<mapsto> PyFloat (1 / 10)]
      example_draws = Some (Inr md') \<and>
     md' ''redshift'' = Some (PyInt 0) \<and>
     md' ''host_specz'' = Some (PyInt 0) \<and>
     md' ''host_photoz'' = Some (PyInt 0) \<and>
     md' ''host_photoz_error'' = Some (PyInt 0) \<and>
     md' ''augment_brightness'' = Some (PyFloat (1 / 2))"
  using augment_metadata_galactic
    [of "[''galactic'' \<mapsto> PyBool True, ''redshift'' \<mapsto> PyFloat 0,
          ''ddf'' \<mapsto> PyBool False, ''mwebv'' \<mapsto> PyFloat (1 / 10)]"
      "PyBool True" "PyBool False" "PyFloat (1 / 10)" "1 / 10"
      flat_distmod "[(1, 3, 1 / 10)]" example_draws]
  by (simp add: getitem_def np_random_normal_def example_draws_def)

subsection \<open>Cadence\<close>

text \<open>
  C8: for wide-field metadata the target observation count is an integer of at least 50:
  the truncation of a normal draw clipped below at 50 and not clipped above, whose mean
  and standard deviation are (95, 20), (115, 8) or (138, 8) as the uniform deviate falls
  in \<open>[0, 0.05)\<close>, \<open>[0.05, 0.45)\<close> or \<open>[0.45, 1)\<close>, intervals of length 0.05, 0.40, 0.55.
\<close>

theorem choose_target_observation_count_wfd:
  assumes "getitem md ''ddf'' = Inr dv" and "\<not> truthy dv"
    and "0 \<le> u" and "u < 1"
  shows "\<exists>n mu sigma. choose_target_observation_count md u g = Inr n \<and> 50 \<le> n \<and>
           (mu, sigma) = (if u < 0.05 then (95, 20) else if u < 0.45 then (115, 8) else (138, 8)) \<and>
           n = py_int (max (np_random_normal mu sigma g) 50)"
proof -
  have "50 \<le> py_int (max x 50)" for x
    by (simp add: py_int_def le_floor_iff max_def)
  then show ?thesis
    using assms
    by (simp add: choose_target_observation_count_def np_random_choice_p_def
        np_clip_def Let_def)
qed

theorem choose_target_observation_count_wfd_witness:
  "choose_target_observation_count [''ddf'' \<mapsto> PyBool False] (1 / 2) 0 = Inr 138 \<and>
   choose_target_observation_count [''ddf'' \<mapsto> PyBool False] (1 / 50) (- 10) = Inr 50"
  using choose_target_observation_count_wfd
    [of "[''ddf'' \<mapsto> PyBool False]" "PyBool False" "1 / 2" 0]
    choose_target_observation_count_wfd
    [of "[''ddf'' \<mapsto> PyBool False]" "PyBool False" "1 / 50" "- 10"]
  by (auto simp: getitem_def py_int_def np_random_normal_def)

subsection \<open>Observation tables\<close>

lemma np_sum_bool_le: "np_sum_bool col \<le> length col"
  by (simp add: np_sum_bool_def)

lemma np_sum_bool_map_detected:
  "np_sum_bool (map detected tbl) = length (filter (\<lambda>row. detected row = Some True) tbl)"
  by (simp add: np_sum_bool_def filter_map comp_def)

lemma lognormal_parameters_length:
  "lognormal_parameters bn bs = Inr ps \<Longrightarrow> length ps = length bs"
  by (induction bs arbitrary: ps) (auto split: option.splits sum.splits)

text \<open>
  C5: the light curve passes detection if and only if at least two rows of the returned
  table are flagged detected; a table of fewer than two rows never passes.
\<close>

theorem simulate_detection_pass_iff:
  assumes "observations < length s"
    and "simulate_detection s observations md rand = ((r', pass_detection), s')"
  shows "(pass_detection \<longleftrightarrow>
            2 \<le> length (filter (\<lambda>row. detected row = Some True) (s' ! r'))) \<and>
         length (s' ! r') = length (s ! observations) \<and>
         (length (s ! observations) < 2 \<longrightarrow> \<not> pass_detection)"
proof -
  from assms have len: "length (s' ! r') = length (s ! observations)"
    by (auto simp: simulate_detection_def Let_def)
  from assms have pass:
    "pass_detection \<longleftrightarrow> 2 \<le> length (filter (\<lambda>row. detected row = Some True) (s' ! r'))"
    by (auto simp: simulate_detection_def Let_def np_sum_bool_map_detected)
  have "length (filter (\<lambda>row. detected row = Some True) (s' ! r')) \<le> length (s ! observations)"
    using length_filter_le [of "\<lambda>row. detected row = Some True" "s' ! r'"] len by simp
  with pass have "length (s ! observations) < 2 \<longrightarrow> \<not> pass_detection"
    by linarith
  with len pass show ?thesis by simp
qed

theorem simulate_detection_pass_iff_witness:
  "\<not> snd (fst (simulate_detection [[example_row]] 0 Map.empty (constant_deviates (1 / 2)))) \<and>
   snd (fst (simulate_detection [[example_row, example_row]] 0 Map.empty
     (constant_deviates (1 / 2))))"
proof -
  let ?one = "simulate_detection [[example_row]] 0 Map.empty (constant_deviates (1 / 2))"
  let ?two = "simulate_detection [[example_row, example_row]] 0 Map.empty
     (constant_deviates (1 / 2))"
  have p1: "0 < length [[example_row]]" by simp
  have p2: "?one = ((fst (fst ?one), snd (fst ?one)), snd ?one)" by simp
  from simulate_detection_pass_iff [OF p1 p2]
  have "length ([[example_row]] ! 0) < 2 \<longrightarrow> \<not> snd (fst ?one)"
    by (elim conjE)
  then have one: "\<not> snd (fst ?one)" by simp
  have q1: "0 < length [[example_row, example_row]]" by simp
  have q2: "?two = ((fst (fst ?two), snd (fst ?two)), snd ?two)" by simp
  have addr: "fst (fst ?two) = 0"
    by (simp add: simulate_detection_def Let_def)
  have flags: "map detected (snd ?two ! 0) = [Some True, Some True]"
    by (simp add: simulate_detection_def Let_def example_row_def np_divide_def
        prob_detected_def np_less_def constant_deviates_def)
  have count: "length (filter (\<lambda>row. detected row = Some True) (snd ?two ! 0)) = 2"
    unfolding np_sum_bool_map_detected [symmetric] flags by (simp add: np_sum_bool_def)
  from simulate_detection_pass_iff [OF q1 q2]
  have "snd (fst ?two) \<longleftrightarrow>
      2 \<le> length (filter (\<lambda>row. detected row = Some True) (snd ?two ! fst (fst ?two)))"
    by (elim conjE)
  with count addr have two: "snd (fst ?two)" by simp
  from one two show ?thesis by (rule conjI)
qed

text \<open>
  C10: \<open>simulate_detection\<close> returns the address it was given and allocates nothing: the
  table at that address now carries the column \<^verbatim>\<open>detected\<close>, its other columns and
  every other object are as before.
\<close>

theorem simulate_detection_in_place:
  assumes "observations < length s"
    and "simulate_detection s observations md rand = ((r', pass_detection), s')"
  shows "r' = observations \<and> length s' = length s \<and>
         (\<forall>a < length s. a \<noteq> observations \<longrightarrow> s' ! a = s ! a) \<and>
         length (s' ! observations) = length (s ! observations) \<and>
         (\<forall>i < length (s ! observations).
            detected (s' ! observations ! i) =
              Some (np_less (rand i) (prob_detected
                 (np_divide \<bar>flux (s ! observations ! i)\<bar> (flux_error (s ! observations ! i))))) \<and>
            band (s' ! observations ! i) = band (s ! observations ! i) \<and>
            flux (s' ! observations ! i) = flux (s ! observations ! i) \<and>
            flux_error (s' ! observations ! i) = flux_error (s ! observations ! i))"
  using assms by (auto simp: simulate_detection_def Let_def)

theorem simulate_detection_in_place_witness:
  "fst (fst (simulate_detection [[example_row]] 0 Map.empty (constant_deviates (1 / 2)))) = 0 \<and>
   snd (simulate_detection [[example_row]] 0 Map.empty (constant_deviates (1 / 2))) =
     [[example_row\<lparr>detected := Some True\<rparr>]]"
proof -
  let ?res = "simulate_detection [[example_row]] 0 Map.empty (constant_deviates (1 / 2))"
  have p1: "0 < length [[example_row]]" by simp
  have p2: "?res = ((fst (fst ?res), snd (fst ?res)), snd ?res)" by simp
  note inst = simulate_detection_in_place [OF p1 p2]
  from inst have a: "fst (fst ?res) = 0" by (elim conjE)
  from inst have "length (snd ?res) = length [[example_row]]" by (elim conjE)
  then have l: "length (snd ?res) = 1" by simp
  from inst have "length (snd ?res ! 0) = length ([[example_row]] ! 0)" by (elim conjE)
  then have l0: "length (snd ?res ! 0) = 1" by simp
  from inst have all: "\<forall>i < length ([[example_row]] ! 0).
       detected (snd ?res ! 0 ! i) =
         Some (np_less (constant_deviates (1 / 2) i) (prob_detected
           (np_divide \<bar>flux ([[example_row]] ! 0 ! i)\<bar> (flux_error ([[example_row]] ! 0 ! i))))) \<and>
       band (snd ?res ! 0 ! i) = band ([[example_row]] ! 0 ! i) \<and>
       flux (snd ?res ! 0 ! i) = flux ([[example_row]] ! 0 ! i) \<and>
       flux_error (snd ?res ! 0 ! i) = flux_error ([[example_row]] ! 0 ! i)"
    by (elim conjE)
  from all have row: "snd ?res ! 0 ! 0 = example_row\<lparr>detected := Some True\<rparr>"
    by (simp add: example_row_def np_divide_def prob_detected_def np_less_def
        constant_deviates_def)
  from l obtain t where s: "snd ?res = [t]"
    by (cases "snd ?res") simp_all
  with l0 obtain r where t: "t = [r]"
    by (cases t) simp_all
  with s row have "r = example_row\<lparr>detected := Some True\<rparr>" by simp
  with s t a show ?thesis by simp
qed

text \<open>
  C6: the noise injector leaves every object of the caller's heap as it was, the table it
  was given included, also when it raises; what it returns is a new address; and for an
  empty table the new table is empty too.
\<close>

theorem noise_pure:
  assumes "r < length s"
    and "simulate_light_curve_uncertainties s r md g1 g2 = (res, s')"
  shows "take (length s) s' = s \<and> s' ! r = s ! r \<and>
         (\<forall>r'. res = Inr r' \<longrightarrow>
            r' = length s \<and> r' \<noteq> r \<and> r' < length s' \<and>
            (s ! r = [] \<longrightarrow> s' ! r' = []))"
  using assms
  by (auto simp: simulate_light_curve_uncertainties_def df_copy_def Let_def nth_append
      split: sum.splits if_splits)

theorem noise_pure_witness:
  "snd (simulate_light_curve_uncertainties [[example_row]] 0 [''ddf'' \<mapsto> PyBool False]
     (constant_deviates 0) (constant_deviates 0)) ! 0 = [example_row] \<and>
   simulate_light_curve_uncertainties [[]] 0 Map.empty
     (constant_deviates 0) (constant_deviates 0) = (Inr 1, [[], []])"
proof -
  let ?res = "simulate_light_curve_uncertainties [[example_row]] 0 [''ddf'' \<mapsto> PyBool False]
     (constant_deviates 0) (constant_deviates 0)"
  let ?emp = "simulate_light_curve_uncertainties [[]] 0 Map.empty
     (constant_deviates 0) (constant_deviates 0)"
  have p1: "0 < length [[example_row]]" by simp
  have p2: "?res = (fst ?res, snd ?res)" by simp
  from noise_pure [OF p1 p2] have "snd ?res ! 0 = [[example_row]] ! 0"
    by (elim conjE)
  then have one: "snd ?res ! 0 = [example_row]" by simp
  have q1: "0 < length [[] :: obs_table]" by simp
  have q2: "?emp = (fst ?emp, snd ?emp)" by simp
  note inst = noise_pure [OF q1 q2]
  have ret: "fst ?emp = Inr 1"
    by (simp add: simulate_light_curve_uncertainties_def df_copy_def)
  from inst have tk: "take (length [[] :: obs_table]) (snd ?emp) = [[]]"
    by (elim conjE)
  from inst have "\<forall>r'. fst ?emp = Inr r' \<longrightarrow>
            r' = length [[] :: obs_table] \<and> r' \<noteq> 0 \<and> r' < length (snd ?emp) \<and>
            ([[]] ! 0 = ([] :: obs_table) \<longrightarrow> snd ?emp ! r' = [])"
    by (elim conjE)
  with ret have new: "snd ?emp ! 1 = []" by simp
  have len: "length (snd ?emp) = 2"
    by (simp add: simulate_light_curve_uncertainties_def df_copy_def)
  from tk have "take 1 (snd ?emp) = [[]]" by simp
  with len new have "snd ?emp = [[], []]"
    by (cases "snd ?emp"; cases "tl (snd ?emp)") auto
  with ret have two: "?emp = (Inr 1, [[], []])"
    by (simp add: prod_eq_iff)
  from one two show ?thesis by (rule conjI)
qed

text \<open>
  C7: the returned table has the rows of the input table, in order, and the
  \<^verbatim>\<open>flux_error\<close> of each is at least the one of the input row: for a non-empty table it is
  the quadrature sum of the old error and an amplitude.
\<close>

theorem noise_flux_error_mono:
  assumes "r < length s"
    and "simulate_light_curve_uncertainties s r md g1 g2 = (Inr r', s')"
  shows "length (s' ! r') = length (s ! r) \<and>
         (\<forall>i < length (s ! r).
            flux_error (s ! r ! i) \<le> flux_error (s' ! r' ! i) \<and>
            (s ! r \<noteq> [] \<longrightarrow>
               (\<exists>amplitude > 0. flux_error (s' ! r' ! i) =
                  sqrt ((flux_error (s ! r ! i))\<^sup>2 + amplitude\<^sup>2))))"
proof (cases "s ! r = []")
  case True
  with assms show ?thesis
    by (auto simp: simulate_light_curve_uncertainties_def df_copy_def Let_def nth_append)
next
  case False
  have mono: "x \<le> sqrt (x\<^sup>2 + a\<^sup>2)" for x a :: real
    by (metis abs_le_iff real_sqrt_abs real_sqrt_le_mono le_add_same_cancel1 zero_le_power2)
  have pos: "0 < np_random_lognormal m sg g" for m sg g
    by (simp add: np_random_lognormal_def)
  from False assms show ?thesis
    by (auto simp: simulate_light_curve_uncertainties_def df_copy_def Let_def nth_append mono
        split: sum.splits dest!: lognormal_parameters_length intro!: exI [of _ "np_random_lognormal m sg g" for m sg g] pos)
qed

lemma noise_example_returns:
  "fst (simulate_light_curve_uncertainties [[example_row]] 0 [''ddf'' \<mapsto> PyBool False]
     (constant_deviates 0) (constant_deviates 0)) = Inr 1"
  by (simp add: simulate_light_curve_uncertainties_def df_copy_def getitem_def Let_def
      example_row_def wfd_band_noises_def)

theorem noise_flux_error_mono_witness:
  "flux_error example_row \<le>
     flux_error (snd (simulate_light_curve_uncertainties [[example_row]] 0
       [''ddf'' \<mapsto> PyBool False] (constant_deviates 0) (constant_deviates 0)) ! 1 ! 0)"
proof -
  let ?res = "simulate_light_curve_uncertainties [[example_row]] 0 [''ddf'' \<mapsto> PyBool False]
     (constant_deviates 0) (constant_deviates 0)"
  have p1: "0 < length [[example_row]]" by simp
  have p2: "?res = (Inr 1, snd ?res)"
    using noise_example_returns by (simp add: prod_eq_iff)
  from noise_flux_error_mono [OF p1 p2]
  have "\<forall>i < length ([[example_row]] ! 0).
            flux_error ([[example_row]] ! 0 ! i) \<le> flux_error (snd ?res ! 1 ! i) \<and>
            ([[example_row]] ! 0 \<noteq> [] \<longrightarrow>
               (\<exists>amplitude > 0. flux_error (snd ?res ! 1 ! i) =
                  sqrt ((flux_error ([[example_row]] ! 0 ! i))\<^sup>2 + amplitude\<^sup>2)))"
    by (elim conjE)
  then show ?thesis by simp
qed

end
